theory Spec2Isabelle
  imports Main "HOL-Library.Word"
begin

unbundle bit_operations_syntax

section \<open>Bytes, numbers and errors\<close>

text \<open>
  A \<open>Uint8Array\<close> is a list of bytes. Host numbers that reach the bit operations of the
  codec are integers; they are modelled as \<open>int\<close>, whose \<open>AND\<close>, \<open>OR\<close>,
  \<open>push_bit\<close> and \<open>drop_bit\<close> are the two's-complement operations. JavaScript
  evaluates these operators on 32-bit signed integers, and the two agree as long as
  operands and results fit in 32 bits: so it is in \<open>writeInt29\<close> after its range check,
  for the bytes that the reader assembles, and for lengths and indices below \<open>2^30\<close>.
\<close>

type_synonym byte = "8 word"

datatype error =
    OutOfRange
  | UnexpectedEnd
  | UnsupportedType
  | UnsupportedValue
  | InvalidReference
  | UnregisteredExternalizable
  | PlatformError
  | HostError
  | IllTyped

section \<open>writer.ts\<close>

record writer =
  chunks :: "byte list list"
  totalLength :: nat

definition new_Writer :: writer where
  "new_Writer = \<lparr>chunks = [], totalLength = 0\<rparr>"

definition getLength :: "'a writer_scheme \<Rightarrow> nat" where
  "getLength w = totalLength w"

definition getBuffer :: "'a writer_scheme \<Rightarrow> byte list" where
  "getBuffer w = concat (chunks w)"

definition clear :: "'a writer_scheme \<Rightarrow> 'a writer_scheme" where
  "clear w = w\<lparr>chunks := [], totalLength := 0\<rparr>"

text \<open>
  \<open>write\<close> (here \<open>writer_write\<close>) dispatches on the run-time type of its argument;
  the four accepted shapes are the constructors of \<open>write_arg\<close>. Strings are modelled by their UTF-8 bytes (a
  \<open>string\<close> is a list of 8-bit characters), so \<open>TextEncoder.encode\<close> reads the
  characters as bytes.
\<close>

datatype write_arg =
    WNumber int
  | WArray "int list"
  | WUint8Array "byte list"
  | WString string

definition utf8_encode :: "string \<Rightarrow> byte list" where
  "utf8_encode s = map (\<lambda>c. of_char c) s"

definition utf8_decode :: "byte list \<Rightarrow> string" where
  "utf8_decode bs = map (\<lambda>b. char_of (unat b)) bs"

definition push_chunk :: "byte list \<Rightarrow> 'a writer_scheme \<Rightarrow> 'a writer_scheme" where
  "push_chunk chunk w =
     w\<lparr>chunks := chunks w @ [chunk], totalLength := totalLength w + length chunk\<rparr>"

fun writer_write :: "write_arg \<Rightarrow> 'a writer_scheme \<Rightarrow> 'a writer_scheme" where
  "writer_write (WNumber v) w = push_chunk [word_of_int (v AND 0xff)] w"
| "writer_write (WArray vs) w = push_chunk (map (\<lambda>v. word_of_int (v AND 0xff)) vs) w"
| "writer_write (WUint8Array bs) w = push_chunk bs w"
| "writer_write (WString s) w = push_chunk (utf8_encode s) w"

definition writeByte :: "int \<Rightarrow> 'a writer_scheme \<Rightarrow> 'a writer_scheme" where
  "writeByte v w = writer_write (WNumber (v AND 0xff)) w"

definition writeInt29 :: "int \<Rightarrow> 'a writer_scheme \<Rightarrow> error + 'a writer_scheme" where
  "writeInt29 v0 w =
     (if v0 > 536870911 \<or> v0 < - 268435456 then Inl OutOfRange
      else
        let v = v0 AND 0x1fffffff in
        if v < 0x80 then Inr (writer_write (WNumber v) w)
        else if v < 0x4000 then
          Inr (writer_write (WArray [(drop_bit 7 v AND 0x7f) OR 0x80, v AND 0x7f]) w)
        else if v < 0x200000 then
          Inr (writer_write (WArray [(drop_bit 14 v AND 0x7f) OR 0x80,
                              (drop_bit 7 v AND 0x7f) OR 0x80,
                              v AND 0x7f]) w)
        else
          Inr (writer_write (WArray [(drop_bit 22 v AND 0x7f) OR 0x80,
                              (drop_bit 14 v AND 0x7f) OR 0x80,
                              (drop_bit 7 v AND 0x7f) OR 0x80,
                              v AND 0xff]) w))"

section \<open>reader.ts\<close>

text \<open>
  The cursor is a host number that the reader only ever adds to; a negative length
  (a header whose 29-bit value has its top bit set) moves it backwards, so it is an
  \<open>int\<close>. Indexing a \<open>Uint8Array\<close> outside its bounds yields \<open>undefined\<close>,
  modelled as \<open>None\<close>; \<open>checkAvailable\<close> only guards the upper end.
\<close>

record reader =
  data :: "byte list"
  position :: int

definition new_Reader :: "byte list \<Rightarrow> reader" where
  "new_Reader bs = \<lparr>data = bs, position = 0\<rparr>"

definition checkAvailable :: "int \<Rightarrow> 'a reader_scheme \<Rightarrow> bool" where
  "checkAvailable len r \<longleftrightarrow> \<not> (position r + len > int (length (data r)))"

definition byte_at :: "byte list \<Rightarrow> int \<Rightarrow> int option" where
  "byte_at bs i = (if 0 \<le> i \<and> i < int (length bs) then Some (uint (bs ! nat i)) else None)"

definition readUInt8 :: "'a reader_scheme \<Rightarrow> error + (int option \<times> 'a reader_scheme)" where
  "readUInt8 r =
     (if \<not> checkAvailable 1 r then Inl UnexpectedEnd
      else Inr (byte_at (data r) (position r), r\<lparr>position := position r + 1\<rparr>))"

text \<open>
  The two coercions that \<open>readInt29\<close> applies to a byte that may be \<open>undefined\<close>:
  \<open>undefined < 128\<close> is false, and \<open>undefined & m\<close>, \<open>t | undefined\<close> read it as 0.
\<close>

definition lt128 :: "int option \<Rightarrow> bool" where
  "lt128 b = (case b of None \<Rightarrow> False | Some x \<Rightarrow> x < 128)"

definition to_int32 :: "int option \<Rightarrow> int" where
  "to_int32 b = (case b of None \<Rightarrow> 0 | Some x \<Rightarrow> x)"

definition sign_extend29 :: "int \<Rightarrow> int" where
  "sign_extend29 t = (- (t AND push_bit 28 1)) OR t"

definition readInt29 :: "'a reader_scheme \<Rightarrow> error + (int \<times> 'a reader_scheme)" where
  "readInt29 r0 =
     (case readUInt8 r0 of Inl e \<Rightarrow> Inl e
      | Inr (byte1, r1) \<Rightarrow>
        if lt128 byte1 then Inr (to_int32 byte1, r1)
        else
          let total1 = push_bit 7 (to_int32 byte1 AND 0x7f) in
          (case readUInt8 r1 of Inl e \<Rightarrow> Inl e
           | Inr (byte2, r2) \<Rightarrow>
             if lt128 byte2 then Inr (sign_extend29 (total1 OR to_int32 byte2), r2)
             else
               let total2 = push_bit 7 (total1 OR (to_int32 byte2 AND 0x7f)) in
               (case readUInt8 r2 of Inl e \<Rightarrow> Inl e
                | Inr (byte3, r3) \<Rightarrow>
                  if lt128 byte3 then Inr (sign_extend29 (total2 OR to_int32 byte3), r3)
                  else
                    let total3 = push_bit 8 (total2 OR (to_int32 byte3 AND 0x7f)) in
                    (case readUInt8 r3 of Inl e \<Rightarrow> Inl e
                     | Inr (byte4, r4) \<Rightarrow>
                       Inr (sign_extend29 (total3 OR to_int32 byte4), r4)))))"

record AMFHeader =
  isDef :: bool
  hvalue :: int

definition readAMFHeader :: "'a reader_scheme \<Rightarrow> error + (AMFHeader \<times> 'a reader_scheme)" where
  "readAMFHeader r =
     (case readInt29 r of Inl e \<Rightarrow> Inl e
      | Inr (handle, r') \<Rightarrow>
        Inr (\<lparr>isDef = (handle AND 1 \<noteq> 0), hvalue = drop_bit 1 handle\<rparr>, r'))"

text \<open>
  The length table of the U29 codec in the words of the specification (section 4.1):
  the number of bytes of the form that holds a masked value.
\<close>

definition spec_u29_length :: "int \<Rightarrow> nat" where
  "spec_u29_length m =
     (if 0 \<le> m \<and> m \<le> 127 then 1
      else if 128 \<le> m \<and> m \<le> 16383 then 2
      else if 16384 \<le> m \<and> m \<le> 2097151 then 3
      else 4)"

section \<open>Host values\<close>

text \<open>
  A host number is an IEEE-754 double. \<open>Integral n\<close> stands for the finite double
  whose value is the integer \<open>n\<close> (the numbers with \<open>isFinite(v) && v % 1 === 0\<close>; the
  two zeros are both \<open>Integral 0\<close>); \<open>NonIntegral b\<close> stands for every other double
  (fractions, NaN, the infinities), given by its 64 bits.
\<close>

datatype number = Integral int | NonIntegral "64 word"

function bitlen :: "int \<Rightarrow> nat" where
  "bitlen n = (if n \<le> 0 then 0 else Suc (bitlen (n div 2)))"
  by pat_completeness auto
termination
  by (relation "measure nat") auto

declare bitlen.simps [simp del]

definition f64_of_int :: "int \<Rightarrow> 64 word" where
  "f64_of_int n =
     (if n = 0 then 0
      else
        let a = \<bar>n\<bar>;
            l = bitlen a;
            sig = (if l \<le> 53 then a * 2 ^ (53 - l) else a div 2 ^ (l - 53));
            sign_bit = (if n < 0 then push_bit 63 1 else 0)
        in sign_bit OR push_bit 52 (word_of_int (int l - 1 + 1023)) OR word_of_int (sig - 2 ^ 52))"

definition f64_bits :: "number \<Rightarrow> 64 word" where
  "f64_bits x = (case x of Integral n \<Rightarrow> f64_of_int n | NonIntegral b \<Rightarrow> b)"

definition number_of_f64 :: "64 word \<Rightarrow> number" where
  "number_of_f64 b =
     (let e = unat (drop_bit 52 b AND 0x7ff);
          m = uint (take_bit 52 b);
          sgn = (if bit b 63 then - 1 else 1 :: int);
          sig = 2 ^ 52 + m
      in if e = 2047 then NonIntegral b
         else if e = 0 then (if m = 0 then Integral 0 else NonIntegral b)
         else if 1075 \<le> e then Integral (sgn * sig * 2 ^ (e - 1075))
         else if e < 1023 then NonIntegral b
         else if sig mod 2 ^ (1075 - e) = 0 then Integral (sgn * (sig div 2 ^ (1075 - e)))
         else NonIntegral b)"

definition is_NaN :: "number \<Rightarrow> bool" where
  "is_NaN x = (case x of Integral n \<Rightarrow> False
     | NonIntegral b \<Rightarrow> drop_bit 52 b AND 0x7ff = 0x7ff \<and> take_bit 52 b \<noteq> 0)"

definition f64_to_bytes :: "64 word \<Rightarrow> byte list" where
  "f64_to_bytes w = map (\<lambda>i. ucast (drop_bit (8 * i) w)) [7, 6, 5, 4, 3, 2, 1, 0]"

definition f64_from_bytes :: "byte list \<Rightarrow> 64 word" where
  "f64_from_bytes bs = foldl (\<lambda>acc b. push_bit 8 acc OR ucast b) 0 bs"

text \<open>
  Host values. Objects live in a heap and are referred to by address, so that identity
  (\<open>===\<close> on objects, which \<open>indexOf\<close> uses) is equality of addresses and a value may
  contain itself. \<open>JFunction\<close> stands for the values whose \<open>typeof\<close> is neither
  \<open>'object'\<close> nor a primitive handled by the codec (functions, symbols, bigints).
  \<open>ForcedTypeValue\<close> wrappers are not among the modelled host values; for every
  modelled value \<open>value instanceof ForcedTypeValue\<close> is false.
\<close>

datatype jsval =
    JUndefined
  | JNull
  | JBool bool
  | JNumber number
  | JString string
  | JRef nat
  | JFunction

definition truthy :: "jsval \<Rightarrow> bool" where
  "truthy v = (case v of
       JUndefined \<Rightarrow> False
     | JNull \<Rightarrow> False
     | JBool b \<Rightarrow> b
     | JNumber x \<Rightarrow> x \<noteq> Integral 0 \<and> \<not> is_NaN x
     | JString s \<Rightarrow> s \<noteq> []
     | JRef a \<Rightarrow> True
     | JFunction \<Rightarrow> True)"

text \<open>
  A run of the codec either returns a value, or throws (\<open>Inl\<close>), or has not returned when
  its fuel is used up (\<open>None\<close>).
\<close>

type_synonym 'a result = "(error + 'a) option"

definition and_then :: "'a result \<Rightarrow> ('a \<Rightarrow> 'b result) \<Rightarrow> 'b result" where
  "and_then r f = (case r of None \<Rightarrow> None | Some (Inl e) \<Rightarrow> Some (Inl e) | Some (Inr x) \<Rightarrow> f x)"

fun for_each :: "('a \<Rightarrow> 's \<Rightarrow> 's result) \<Rightarrow> 'a list \<Rightarrow> 's \<Rightarrow> 's result" where
  "for_each f [] s = Some (Inr s)"
| "for_each f (x # xs) s =
     (case f x s of None \<Rightarrow> None | Some (Inl e) \<Rightarrow> Some (Inl e) | Some (Inr s') \<Rightarrow> for_each f xs s')"

fun index_of :: "'a list \<Rightarrow> 'a \<Rightarrow> nat option" where
  "index_of [] y = None"
| "index_of (x # xs) y = (if x = y then Some 0 else map_option Suc (index_of xs y))"

definition get_prop :: "(string \<times> jsval) list \<Rightarrow> string \<Rightarrow> jsval" where
  "get_prop props key = (case map_of props key of None \<Rightarrow> JUndefined | Some v \<Rightarrow> v)"

fun set_prop :: "string \<Rightarrow> jsval \<Rightarrow> (string \<times> jsval) list \<Rightarrow> (string \<times> jsval) list" where
  "set_prop key v [] = [(key, v)]"
| "set_prop key v ((k, x) # ps) = (if k = key then (k, v) # ps else (k, x) # set_prop key v ps)"

definition is_internal :: "string \<Rightarrow> bool" where
  "is_internal key \<longleftrightarrow> take 2 key = ''__''"

section \<open>The encoder state and the heap\<close>

record encoder = writer +
  amf3ObjectReferences :: "jsval list"
  amf3StringReferences :: "string list"

definition new_AMFEncoder :: encoder where
  "new_AMFEncoder =
     \<lparr>chunks = [], totalLength = 0, amf3ObjectReferences = [], amf3StringReferences = []\<rparr>"

text \<open>
  The objects of the heap, by what \<open>instanceof\<close> and \<open>Object.keys\<close> tell the codec
  about them. A property list holds the own enumerable properties in the order
  \<open>Object.keys\<close> enumerates them. An instance of \<open>Serializable\<close> carries, besides its
  properties (\<open>__class\<close> and \<open>__dynamic\<close> among them), the result of its
  \<open>getSerializableFields\<close> method when it defines one, and, when it is an
  \<open>Externalizable\<close>, its \<open>write\<close> method: a host callback that is handed the encoder
  (its \<open>encodeValue\<close> and its state); \<open>None\<close> is the method of the base class, which
  throws.
\<close>

type_synonym ext_write =
  "(jsval \<Rightarrow> encoder \<Rightarrow> encoder result) \<Rightarrow> encoder \<Rightarrow> encoder result"

datatype ext_kind = NotExternalizable | IsExternalizable "ext_write option"

datatype heap_obj =
    DateObj number
  | Uint8Array "byte list"
  | ArrayObj "jsval list"
  | PlainObj "(string \<times> jsval) list"
  | SerializableObj ext_kind "string list option" "(string \<times> jsval) list"

type_synonym heap = "heap_obj list"

definition heap_get :: "heap \<Rightarrow> nat \<Rightarrow> heap_obj option" where
  "heap_get h a = (if a < length h then Some (h ! a) else None)"

text \<open>
  The constructor of \<open>Serializable\<close> (classes.ts): \<open>__class = serializableName ?? ''\<close>
  and \<open>__dynamic = dynamic ?? true\<close>.
\<close>

definition new_Serializable :: "string option \<Rightarrow> bool option \<Rightarrow> heap_obj" where
  "new_Serializable serializableName dynamic =
     SerializableObj NotExternalizable None
       [(''__class'', JString (case serializableName of None \<Rightarrow> [] | Some s \<Rightarrow> s)),
        (''__dynamic'', JBool (case dynamic of None \<Rightarrow> True | Some d \<Rightarrow> d))]"

section \<open>types.ts\<close>

datatype AMFType =
    UNDEFINED | NULL | FALSE | TRUE | INTEGER | DOUBLE | STRING | XML_DOC | DATE | ARRAY
  | OBJECT | XML | BYTE_ARRAY | VECTOR_INT | VECTOR_UINT | VECTOR_DOUBLE | VECTOR_OBJECT
  | DICTIONARY

fun type_id :: "AMFType \<Rightarrow> int" where
  "type_id UNDEFINED = 0x00"
| "type_id NULL = 0x01"
| "type_id FALSE = 0x02"
| "type_id TRUE = 0x03"
| "type_id INTEGER = 0x04"
| "type_id DOUBLE = 0x05"
| "type_id STRING = 0x06"
| "type_id XML_DOC = 0x07"
| "type_id DATE = 0x08"
| "type_id ARRAY = 0x09"
| "type_id OBJECT = 0x0A"
| "type_id XML = 0x0B"
| "type_id BYTE_ARRAY = 0x0C"
| "type_id VECTOR_INT = 0x0D"
| "type_id VECTOR_UINT = 0x0E"
| "type_id VECTOR_DOUBLE = 0x0F"
| "type_id VECTOR_OBJECT = 0x10"
| "type_id DICTIONARY = 0x11"

fun referencable :: "AMFType \<Rightarrow> bool" where
  "referencable UNDEFINED = False"
| "referencable NULL = False"
| "referencable FALSE = False"
| "referencable TRUE = False"
| "referencable INTEGER = False"
| "referencable DOUBLE = False"
| "referencable t = True"

text \<open>
  \<open>AMF3.infer\<close>. The tests follow the order of the source; the test for a number reads
  \<open>isFinite(value) && value % 1 === 0 && value < 536870911 && value > -268435456\<close>.
\<close>

definition infer :: "heap \<Rightarrow> jsval \<Rightarrow> error + AMFType" where
  "infer h v = (case v of
       JNull \<Rightarrow> Inr NULL
     | JUndefined \<Rightarrow> Inr UNDEFINED
     | JBool b \<Rightarrow> (if \<not> b then Inr FALSE else Inr TRUE)
     | JString s \<Rightarrow> Inr STRING
     | JNumber x \<Rightarrow>
         (case x of
            Integral n \<Rightarrow> (if n < 536870911 \<and> n > - 268435456 then Inr INTEGER else Inr DOUBLE)
          | NonIntegral b \<Rightarrow> Inr DOUBLE)
     | JRef a \<Rightarrow>
         (case heap_get h a of
            None \<Rightarrow> Inl IllTyped
          | Some (DateObj t) \<Rightarrow> Inr DATE
          | Some (Uint8Array bs) \<Rightarrow> Inr BYTE_ARRAY
          | Some (ArrayObj xs) \<Rightarrow> Inr ARRAY
          | Some (SerializableObj ext hook props) \<Rightarrow> Inr OBJECT
          | Some (PlainObj props) \<Rightarrow> Inr ARRAY)
     | JFunction \<Rightarrow> Inl UnsupportedValue)"

section \<open>encoder.ts\<close>

text \<open>
  \<open>encodeValue\<close> calls itself through \<open>writeByType\<close>, \<open>writeArray\<close> and
  \<open>writeObjectValue\<close>. Each of these takes the recursive \<open>this.encodeValue\<close> as its
  first argument \<open>enc\<close>; \<open>encodeValue\<close> ties the knot by recursion on a fuel that
  bounds the nesting depth of the calls. The heap is only read by the encoder.
\<close>

definition writeDoubleBE :: "number \<Rightarrow> 'a writer_scheme \<Rightarrow> 'a writer_scheme" where
  "writeDoubleBE x w = writer_write (WUint8Array (f64_to_bytes (f64_bits x))) w"

definition writeInlineString :: "string \<Rightarrow> 'a writer_scheme \<Rightarrow> error + 'a writer_scheme" where
  "writeInlineString s w =
     (let bytes = utf8_encode s in
      case writeInt29 (push_bit 1 (int (length bytes)) OR 1) w of
        Inl e \<Rightarrow> Inl e
      | Inr w' \<Rightarrow> Inr (writer_write (WUint8Array bytes) w'))"

definition writeByteArray :: "byte list \<Rightarrow> 'a writer_scheme \<Rightarrow> error + 'a writer_scheme" where
  "writeByteArray bs w =
     (case writeInt29 (push_bit 1 (int (length bs)) OR 1) w of
        Inl e \<Rightarrow> Inl e
      | Inr w' \<Rightarrow> Inr (writer_write (WUint8Array bs) w'))"

text \<open>
  The loop over \<open>Object.keys(value)\<close> shared by the associative branch of
  \<open>writeArray\<close> and the anonymous branch of \<open>writeObjectValue\<close>: keys that start
  with \<open>__\<close> are skipped, the others are written inline and followed by their value.
\<close>

definition write_pairs ::
  "(jsval \<Rightarrow> encoder \<Rightarrow> encoder result) \<Rightarrow> (string \<times> jsval) list \<Rightarrow> encoder \<Rightarrow> encoder result" where
  "write_pairs enc props st =
     for_each (\<lambda>key st. if is_internal key then Some (Inr st)
                         else and_then (Some (writeInlineString key st)) (enc (get_prop props key)))
       (map fst props) st"

definition writeArray ::
  "(jsval \<Rightarrow> encoder \<Rightarrow> encoder result) \<Rightarrow> heap_obj \<Rightarrow> encoder \<Rightarrow> encoder result" where
  "writeArray enc obj st = (case obj of
       ArrayObj elems \<Rightarrow>
         and_then (Some (writeInt29 (push_bit 1 (int (length elems)) OR 1) st)) (\<lambda>st.
         and_then (Some (writeInlineString [] st)) (\<lambda>st.
         for_each enc elems st))
     | PlainObj props \<Rightarrow>
         and_then (Some (writeInt29 0x01 st)) (\<lambda>st.
         and_then (write_pairs enc props st) (\<lambda>st.
         Some (writeInlineString [] st)))
     | _ \<Rightarrow> Some (Inl IllTyped))"

definition getSerializableKeys :: "string list option \<Rightarrow> (string \<times> jsval) list \<Rightarrow> string list" where
  "getSerializableKeys hook props =
     filter (\<lambda>key. \<not> is_internal key)
       (case hook of None \<Rightarrow> map fst props | Some ks \<Rightarrow> ks)"

definition writeObjectValue ::
  "(jsval \<Rightarrow> encoder \<Rightarrow> encoder result) \<Rightarrow> heap_obj \<Rightarrow> encoder \<Rightarrow> encoder result" where
  "writeObjectValue enc obj st = (case obj of
       SerializableObj ext hook props \<Rightarrow>
         (let cls = get_prop props ''__class'' in
          if \<not> truthy cls \<or> cls = JString [] then
            and_then (Some (writeInt29 0x0b st)) (\<lambda>st.
            and_then (Some (writeInt29 0x01 st)) (\<lambda>st.
            and_then (write_pairs enc props st) (\<lambda>st.
            Some (writeInlineString [] st))))
          else
            (let externalizable = (ext \<noteq> NotExternalizable);
                 keys = (if externalizable then [] else getSerializableKeys hook props);
                 header0 = push_bit 4 (int (length keys));
                 header1 = header0 OR push_bit 2 (if externalizable then 1 else 0);
                 header = (header1 OR 2) OR 1
             in and_then (Some (writeInt29 header st)) (\<lambda>st.
                case cls of
                  JString name \<Rightarrow>
                    and_then (Some (writeInlineString name st)) (\<lambda>st.
                    case ext of
                      IsExternalizable None \<Rightarrow> Some (Inl HostError)
                    | IsExternalizable (Some host_write) \<Rightarrow> host_write enc st
                    | NotExternalizable \<Rightarrow>
                        and_then
                          (for_each (\<lambda>key st. Some (writeInlineString key st)) keys st) (\<lambda>st.
                        for_each (\<lambda>key st. enc (get_prop props key) st) keys st))
                | _ \<Rightarrow> Some (Inl IllTyped))))
     | _ \<Rightarrow> Some (Inl IllTyped))"

text \<open>
  \<open>writeByType\<close> switches on \<open>type.id\<close>. The value has the shape that \<open>infer\<close>
  found; the combinations that \<open>infer\<close> cannot produce yield \<open>IllTyped\<close>.
\<close>

definition writeByType ::
  "(jsval \<Rightarrow> encoder \<Rightarrow> encoder result) \<Rightarrow> heap \<Rightarrow> jsval \<Rightarrow> AMFType \<Rightarrow> encoder \<Rightarrow> encoder result" where
  "writeByType enc h v type st =
     (if type_id type \<in> {0x00, 0x01, 0x02, 0x03} then Some (Inr st)
      else if type_id type = 0x04 then
        (case v of JNumber (Integral n) \<Rightarrow> Some (writeInt29 n st) | _ \<Rightarrow> Some (Inl IllTyped))
      else if type_id type = 0x05 then
        (case v of JNumber x \<Rightarrow> Some (Inr (writeDoubleBE x st)) | _ \<Rightarrow> Some (Inl IllTyped))
      else if type_id type = 0x06 then
        (case v of JString s \<Rightarrow> Some (writeInlineString s st) | _ \<Rightarrow> Some (Inl IllTyped))
      else
        (case v of
           JRef a \<Rightarrow>
             (case heap_get h a of
                None \<Rightarrow> Some (Inl IllTyped)
              | Some obj \<Rightarrow>
                  if type_id type = 0x08 then
                    (case obj of
                       DateObj t \<Rightarrow>
                         and_then (Some (writeInt29 1 st)) (\<lambda>st. Some (Inr (writeDoubleBE t st)))
                     | _ \<Rightarrow> Some (Inl IllTyped))
                  else if type_id type = 0x09 then writeArray enc obj st
                  else if type_id type = 0x0A then writeObjectValue enc obj st
                  else if type_id type = 0x0C then
                    (case obj of
                       Uint8Array bs \<Rightarrow> Some (writeByteArray bs st)
                     | _ \<Rightarrow> Some (Inl IllTyped))
                  else Some (Inl UnsupportedType))
         | _ \<Rightarrow> Some (Inl IllTyped)))"

definition encodeValue_body ::
  "(jsval \<Rightarrow> encoder \<Rightarrow> encoder result) \<Rightarrow> heap \<Rightarrow> jsval \<Rightarrow> encoder \<Rightarrow> encoder result" where
  "encodeValue_body enc h v st =
     (case infer h v of
        Inl e \<Rightarrow> Some (Inl e)
      | Inr type \<Rightarrow>
          let realValue = v in
          if referencable type \<and> realValue \<noteq> JString [] then
            (let index =
                   (if type = STRING
                    then (case realValue of
                            JString s \<Rightarrow> index_of (amf3StringReferences st) s
                          | _ \<Rightarrow> None)
                    else index_of (amf3ObjectReferences st) realValue)
             in case index of
                  Some i \<Rightarrow> Some (writeInt29 (push_bit 1 (int i)) (writeByte (type_id type) st))
                | None \<Rightarrow>
                    (let st1 =
                           (if type = STRING
                            then (case realValue of
                                    JString s \<Rightarrow>
                                      st\<lparr>amf3StringReferences := amf3StringReferences st @ [s]\<rparr>
                                  | _ \<Rightarrow> st)
                            else st\<lparr>amf3ObjectReferences := amf3ObjectReferences st @ [realValue]\<rparr>)
                     in writeByType enc h realValue type (writeByte (type_id type) st1)))
          else writeByType enc h realValue type (writeByte (type_id type) st))"

primrec encodeValue :: "nat \<Rightarrow> heap \<Rightarrow> jsval \<Rightarrow> encoder \<Rightarrow> encoder result" where
  "encodeValue 0 h v st = None"
| "encodeValue (Suc fuel) h v st = encodeValue_body (encodeValue fuel h) h v st"

definition writeObject :: "nat \<Rightarrow> heap \<Rightarrow> jsval \<Rightarrow> encoder \<Rightarrow> encoder result" where
  "writeObject fuel h v st = encodeValue fuel h v st"

section \<open>The remaining reader primitives\<close>

text \<open>
  \<open>Uint8Array.prototype.slice\<close>: a negative bound counts from the end, and both bounds
  are clamped to the array.
\<close>

definition js_slice :: "'a list \<Rightarrow> int \<Rightarrow> int \<Rightarrow> 'a list" where
  "js_slice xs start stop =
     (let len = int (length xs);
          k = (if start < 0 then max (len + start) 0 else min start len);
          final = (if stop < 0 then max (len + stop) 0 else min stop len)
      in take (nat (final - k)) (drop (nat k) xs))"

definition readByte_array :: "int \<Rightarrow> 'a reader_scheme \<Rightarrow> error + (byte list \<times> 'a reader_scheme)" where
  "readByte_array len r =
     (if \<not> checkAvailable len r then Inl UnexpectedEnd
      else Inr (js_slice (data r) (position r) (position r + len),
                r\<lparr>position := position r + len\<rparr>))"

definition readUTF8String :: "int \<Rightarrow> 'a reader_scheme \<Rightarrow> error + (string \<times> 'a reader_scheme)" where
  "readUTF8String len r =
     (if \<not> checkAvailable len r then Inl UnexpectedEnd
      else Inr (utf8_decode (js_slice (data r) (position r) (position r + len)),
                r\<lparr>position := position r + len\<rparr>))"

text \<open>
  The \<open>DataView\<close> getters throw a \<open>RangeError\<close> of their own when the offset is
  negative; \<open>checkAvailable\<close> has excluded an offset beyond the end.
\<close>

definition be_uint :: "byte list \<Rightarrow> int" where
  "be_uint bs = foldl (\<lambda>acc b. acc * 256 + uint b) 0 bs"

definition readUInt32BE :: "'a reader_scheme \<Rightarrow> error + (int \<times> 'a reader_scheme)" where
  "readUInt32BE r =
     (if \<not> checkAvailable 4 r then Inl UnexpectedEnd
      else if position r < 0 then Inl PlatformError
      else Inr (be_uint (take 4 (drop (nat (position r)) (data r))),
                r\<lparr>position := position r + 4\<rparr>))"

definition readInt32BE :: "'a reader_scheme \<Rightarrow> error + (int \<times> 'a reader_scheme)" where
  "readInt32BE r =
     (if \<not> checkAvailable 4 r then Inl UnexpectedEnd
      else if position r < 0 then Inl PlatformError
      else Inr (signed_take_bit 31 (be_uint (take 4 (drop (nat (position r)) (data r)))),
                r\<lparr>position := position r + 4\<rparr>))"

definition readDoubleBE :: "'a reader_scheme \<Rightarrow> error + (number \<times> 'a reader_scheme)" where
  "readDoubleBE r =
     (if \<not> checkAvailable 8 r then Inl UnexpectedEnd
      else if position r < 0 then Inl PlatformError
      else Inr (number_of_f64 (f64_from_bytes (take 8 (drop (nat (position r)) (data r)))),
                r\<lparr>position := position r + 8\<rparr>))"

section \<open>decoder.ts\<close>

record AMFTrait =
  trait_name :: string
  trait_dynamic :: bool
  trait_externalizable :: bool
  staticFields :: "string list"

text \<open>
  The decoder state: the reader, the three reference tables, and the heap of the objects
  that the decoder has created. The object table holds host values (addresses of heap
  objects, and whatever an externalizable path pushes).
\<close>

record decoder = reader +
  dec_amf3StringReferences :: "string list"
  dec_amf3ObjectReferences :: "jsval list"
  dec_amf3TraitReferences :: "AMFTrait list"
  dec_heap :: heap

definition new_AMFDecoder :: "byte list \<Rightarrow> decoder" where
  "new_AMFDecoder bs =
     \<lparr>data = bs, position = 0, dec_amf3StringReferences = [], dec_amf3ObjectReferences = [],
      dec_amf3TraitReferences = [], dec_heap = []\<rparr>"

text \<open>
  What the decoder takes from its host: the process-wide registry of externalizable
  readers (\<open>AMFDecoder.amf3Externalizables\<close>; a reader is a callback that is handed the
  decoder, that is its \<open>decode\<close> and its state) and \<open>JSON.stringify\<close>, which turns a
  dictionary key into a property name.
\<close>

type_synonym ext_read =
  "(decoder \<Rightarrow> (jsval \<times> decoder) result) \<Rightarrow> decoder \<Rightarrow> (jsval \<times> decoder) result"

record host =
  amf3Externalizables :: "string \<Rightarrow> ext_read option"
  JSON_stringify :: "heap \<Rightarrow> jsval \<Rightarrow> string"

text \<open>Reading \<open>table[i]\<close>: \<open>undefined\<close> (\<open>None\<close>) outside the table.\<close>

definition table_get :: "'a list \<Rightarrow> int \<Rightarrow> 'a option" where
  "table_get xs i = (if 0 \<le> i \<and> i < int (length xs) then Some (xs ! nat i) else None)"

definition alloc :: "heap_obj \<Rightarrow> decoder \<Rightarrow> nat \<times> decoder" where
  "alloc obj st = (length (dec_heap st), st\<lparr>dec_heap := dec_heap st @ [obj]\<rparr>)"

definition push_object :: "jsval \<Rightarrow> decoder \<Rightarrow> decoder" where
  "push_object v st = st\<lparr>dec_amf3ObjectReferences := dec_amf3ObjectReferences st @ [v]\<rparr>"

text \<open>
  \<open>obj[key] = v\<close> on a property list replaces the value of an existing key in place and
  appends a new key; \<open>arr.push(v)\<close> appends to an array. (Keys that the host treats
  specially, such as index-like keys, which it enumerates first, are not distinguished.)
\<close>

definition assign_prop :: "nat \<Rightarrow> string \<Rightarrow> jsval \<Rightarrow> decoder \<Rightarrow> decoder" where
  "assign_prop a key v st =
     (case heap_get (dec_heap st) a of
        Some (PlainObj props) \<Rightarrow>
          st\<lparr>dec_heap := (dec_heap st)[a := PlainObj (set_prop key v props)]\<rparr>
      | Some (SerializableObj ext hook props) \<Rightarrow>
          st\<lparr>dec_heap := (dec_heap st)[a := SerializableObj ext hook (set_prop key v props)]\<rparr>
      | _ \<Rightarrow> st)"

definition array_push :: "nat \<Rightarrow> jsval \<Rightarrow> decoder \<Rightarrow> decoder" where
  "array_push a v st =
     (case heap_get (dec_heap st) a of
        Some (ArrayObj xs) \<Rightarrow> st\<lparr>dec_heap := (dec_heap st)[a := ArrayObj (xs @ [v])]\<rparr>
      | _ \<Rightarrow> st)"

definition own_keys :: "heap \<Rightarrow> nat \<Rightarrow> string list" where
  "own_keys h a = (case heap_get h a of Some (PlainObj props) \<Rightarrow> map fst props | _ \<Rightarrow> [])"

definition is_Date :: "heap \<Rightarrow> jsval option \<Rightarrow> bool" where
  "is_Date h r = (case r of
       Some (JRef a) \<Rightarrow> (case heap_get h a of Some (DateObj t) \<Rightarrow> True | _ \<Rightarrow> False)
     | _ \<Rightarrow> False)"

definition is_Uint8Array :: "heap \<Rightarrow> jsval option \<Rightarrow> bool" where
  "is_Uint8Array h r = (case r of
       Some (JRef a) \<Rightarrow> (case heap_get h a of Some (Uint8Array bs) \<Rightarrow> True | _ \<Rightarrow> False)
     | _ \<Rightarrow> False)"

text \<open>The test \<open>!ref\<close> of the array, object, vector and dictionary paths.\<close>

definition falsy_ref :: "jsval option \<Rightarrow> bool" where
  "falsy_ref r = (case r of None \<Rightarrow> True | Some v \<Rightarrow> \<not> truthy v)"

definition readAMF3String :: "decoder \<Rightarrow> error + (string \<times> decoder)" where
  "readAMF3String st0 =
     (case readAMFHeader st0 of
        Inl e \<Rightarrow> Inl e
      | Inr (header, st) \<Rightarrow>
          if \<not> isDef header then
            (case table_get (dec_amf3StringReferences st) (hvalue header) of
               None \<Rightarrow> Inl InvalidReference
             | Some ref \<Rightarrow> Inr (ref, st))
          else if hvalue header = 0 then Inr ([], st)
          else
            (case readUTF8String (hvalue header) st of
               Inl e \<Rightarrow> Inl e
             | Inr (v, st') \<Rightarrow>
                 Inr (v, st'\<lparr>dec_amf3StringReferences := dec_amf3StringReferences st' @ [v]\<rparr>)))"

definition readAMF3Date :: "decoder \<Rightarrow> error + (jsval \<times> decoder)" where
  "readAMF3Date st0 =
     (case readAMFHeader st0 of
        Inl e \<Rightarrow> Inl e
      | Inr (header, st) \<Rightarrow>
          if \<not> isDef header then
            (let ref = table_get (dec_amf3ObjectReferences st) (hvalue header) in
             if \<not> is_Date (dec_heap st) ref then Inl InvalidReference
             else (case ref of Some v \<Rightarrow> Inr (v, st) | None \<Rightarrow> Inl InvalidReference))
          else
            (case readDoubleBE st of
               Inl e \<Rightarrow> Inl e
             | Inr (t, st1) \<Rightarrow>
                 (let (a, st2) = alloc (DateObj t) st1
                  in Inr (JRef a, push_object (JRef a) st2))))"

definition readAMF3ByteArray :: "decoder \<Rightarrow> error + (jsval \<times> decoder)" where
  "readAMF3ByteArray st0 =
     (case readAMFHeader st0 of
        Inl e \<Rightarrow> Inl e
      | Inr (header, st) \<Rightarrow>
          if \<not> isDef header then
            (let ref = table_get (dec_amf3ObjectReferences st) (hvalue header) in
             if \<not> is_Uint8Array (dec_heap st) ref then Inl InvalidReference
             else (case ref of Some v \<Rightarrow> Inr (v, st) | None \<Rightarrow> Inl InvalidReference))
          else
            (case readByte_array (hvalue header) st of
               Inl e \<Rightarrow> Inl e
             | Inr (bytes, st1) \<Rightarrow>
                 (let (a, st2) = alloc (Uint8Array bytes) st1
                  in Inr (JRef a, push_object (JRef a) st2))))"

text \<open>
  The loops. \<open>for_count n body\<close> is \<open>for (i = 0; i < n; i++) body\<close>. \<open>read_pairs\<close> is
  the \<open>while (true)\<close> loop of the array and object paths, which reads a key, leaves on
  the empty key and otherwise decodes a value and assigns it; its first argument bounds
  the number of iterations.
\<close>

primrec for_count :: "nat \<Rightarrow> ('s \<Rightarrow> 's result) \<Rightarrow> 's \<Rightarrow> 's result" where
  "for_count 0 body s = Some (Inr s)"
| "for_count (Suc n) body s =
     (case body s of None \<Rightarrow> None | Some (Inl e) \<Rightarrow> Some (Inl e) | Some (Inr s') \<Rightarrow> for_count n body s')"

primrec read_pairs ::
  "nat \<Rightarrow> (decoder \<Rightarrow> (jsval \<times> decoder) result) \<Rightarrow> nat \<Rightarrow> decoder \<Rightarrow> decoder result" where
  "read_pairs 0 dec a st = None"
| "read_pairs (Suc fuel) dec a st =
     (case readAMF3String st of
        Inl e \<Rightarrow> Some (Inl e)
      | Inr (key, st1) \<Rightarrow>
          if key = [] then Some (Inr st1)
          else and_then (dec st1) (\<lambda>(v, st2). read_pairs fuel dec a (assign_prop a key v st2)))"

definition readAMF3Array ::
  "(decoder \<Rightarrow> (jsval \<times> decoder) result) \<Rightarrow> nat \<Rightarrow> decoder \<Rightarrow> (jsval \<times> decoder) result" where
  "readAMF3Array dec fuel st0 =
     (case readAMFHeader st0 of
        Inl e \<Rightarrow> Some (Inl e)
      | Inr (header, st) \<Rightarrow>
          if \<not> isDef header then
            (let ref = table_get (dec_amf3ObjectReferences st) (hvalue header) in
             if falsy_ref ref then Some (Inl InvalidReference)
             else (case ref of Some v \<Rightarrow> Some (Inr (v, st)) | None \<Rightarrow> Some (Inl InvalidReference)))
          else
            (let (named, st1) = alloc (PlainObj []) st;
                 st2 = push_object (JRef named) st1;
                 idx = length (dec_amf3ObjectReferences st2) - 1
             in and_then (read_pairs fuel dec named st2) (\<lambda>st3.
                if length (own_keys (dec_heap st3) named) > 0 then Some (Inr (JRef named, st3))
                else
                  (let (dense, st4) = alloc (ArrayObj []) st3;
                       st5 = st4\<lparr>dec_amf3ObjectReferences :=
                                   (dec_amf3ObjectReferences st4)[idx := JRef dense]\<rparr>
                   in and_then
                        (for_count (nat (hvalue header))
                           (\<lambda>s. and_then (dec s) (\<lambda>(v, s'). Some (Inr (array_push dense v s'))))
                           st5)
                        (\<lambda>st6. Some (Inr (JRef dense, st6)))))))"

primrec read_strings :: "nat \<Rightarrow> decoder \<Rightarrow> error + (string list \<times> decoder)" where
  "read_strings 0 st = Inr ([], st)"
| "read_strings (Suc n) st =
     (case readAMF3String st of
        Inl e \<Rightarrow> Inl e
      | Inr (s, st1) \<Rightarrow>
          (case read_strings n st1 of
             Inl e \<Rightarrow> Inl e
           | Inr (ss, st2) \<Rightarrow> Inr (s # ss, st2)))"

definition readAMF3ObjectTrait :: "int \<Rightarrow> decoder \<Rightarrow> error + (AMFTrait \<times> decoder)" where
  "readAMF3ObjectTrait flags st =
     (if flags AND 1 = 0 then
        (case table_get (dec_amf3TraitReferences st) (drop_bit 1 flags) of
           None \<Rightarrow> Inl InvalidReference
         | Some trait \<Rightarrow> Inr (trait, st))
      else
        (case readAMF3String st of
           Inl e \<Rightarrow> Inl e
         | Inr (name, st1) \<Rightarrow>
             (let isExternalizable = (drop_bit 1 flags AND 1 = 1);
                  isDynamic = (drop_bit 2 flags AND 1 = 1);
                  staticKeyLen = drop_bit 3 flags
              in case read_strings (nat staticKeyLen) st1 of
                   Inl e \<Rightarrow> Inl e
                 | Inr (fs, st2) \<Rightarrow>
                     (let trait = \<lparr>trait_name = name, trait_dynamic = isDynamic,
                                   trait_externalizable = isExternalizable, staticFields = fs\<rparr>
                      in Inr (trait,
                              st2\<lparr>dec_amf3TraitReferences :=
                                    dec_amf3TraitReferences st2 @ [trait]\<rparr>)))))"

definition readAMF3Object ::
  "(decoder \<Rightarrow> (jsval \<times> decoder) result) \<Rightarrow> nat \<Rightarrow> host \<Rightarrow> decoder \<Rightarrow> (jsval \<times> decoder) result" where
  "readAMF3Object dec fuel hst st0 =
     (case readAMFHeader st0 of
        Inl e \<Rightarrow> Some (Inl e)
      | Inr (header, st) \<Rightarrow>
          if \<not> isDef header then
            (let ref = table_get (dec_amf3ObjectReferences st) (hvalue header) in
             if falsy_ref ref then Some (Inl InvalidReference)
             else (case ref of Some v \<Rightarrow> Some (Inr (v, st)) | None \<Rightarrow> Some (Inl InvalidReference)))
          else
            (case readAMF3ObjectTrait (hvalue header) st of
               Inl e \<Rightarrow> Some (Inl e)
             | Inr (trait, st1) \<Rightarrow>
                 if trait_externalizable trait then
                   (if trait_name trait = ''flex.messaging.io.ArrayCollection'' then
                      and_then (dec st1) (\<lambda>(arr, st2). Some (Inr (arr, push_object arr st2)))
                    else
                      (case amf3Externalizables hst (trait_name trait) of
                         None \<Rightarrow> Some (Inl UnregisteredExternalizable)
                       | Some ext \<Rightarrow>
                           and_then (ext dec st1) (\<lambda>(extObj, st2).
                             Some (Inr (extObj, push_object extObj st2)))))
                 else
                   (let (res, st2) =
                          alloc (new_Serializable (Some (trait_name trait))
                                   (Some (trait_dynamic trait))) st1;
                        st3 = push_object (JRef res) st2
                    in and_then
                         (for_each
                            (\<lambda>field s. and_then (dec s) (\<lambda>(v, s'). Some (Inr (assign_prop res field v s'))))
                            (staticFields trait) st3)
                         (\<lambda>st4.
                            if trait_dynamic trait then
                              and_then (read_pairs fuel dec res st4) (\<lambda>st5. Some (Inr (JRef res, st5)))
                            else Some (Inr (JRef res, st4))))))"

definition readAMF3Vector ::
  "(decoder \<Rightarrow> (jsval \<times> decoder) result) \<Rightarrow> decoder \<Rightarrow> (jsval \<times> decoder) result" where
  "readAMF3Vector rd st0 =
     (case readAMFHeader st0 of
        Inl e \<Rightarrow> Some (Inl e)
      | Inr (header, st) \<Rightarrow>
          if \<not> isDef header then
            (let ref = table_get (dec_amf3ObjectReferences st) (hvalue header) in
             if falsy_ref ref then Some (Inl InvalidReference)
             else (case ref of Some v \<Rightarrow> Some (Inr (v, st)) | None \<Rightarrow> Some (Inl InvalidReference)))
          else
            (case readUInt8 st of
               Inl e \<Rightarrow> Some (Inl e)
             | Inr (fixed, st1) \<Rightarrow>
                 (let (res, st2) = alloc (ArrayObj []) st1;
                      st3 = push_object (JRef res) st2
                  in and_then
                       (for_count (nat (hvalue header))
                          (\<lambda>s. and_then (rd s) (\<lambda>(v, s'). Some (Inr (array_push res v s'))))
                          st3)
                       (\<lambda>st4. Some (Inr (JRef res, st4))))))"

definition readAMF3VectorInt :: "decoder \<Rightarrow> (jsval \<times> decoder) result" where
  "readAMF3VectorInt st =
     readAMF3Vector
       (\<lambda>s. case readInt32BE s of Inl e \<Rightarrow> Some (Inl e)
             | Inr (n, s') \<Rightarrow> Some (Inr (JNumber (Integral n), s'))) st"

definition readAMF3VectorUInt :: "decoder \<Rightarrow> (jsval \<times> decoder) result" where
  "readAMF3VectorUInt st =
     readAMF3Vector
       (\<lambda>s. case readUInt32BE s of Inl e \<Rightarrow> Some (Inl e)
             | Inr (n, s') \<Rightarrow> Some (Inr (JNumber (Integral n), s'))) st"

definition readAMF3VectorDouble :: "decoder \<Rightarrow> (jsval \<times> decoder) result" where
  "readAMF3VectorDouble st =
     readAMF3Vector
       (\<lambda>s. case readDoubleBE s of Inl e \<Rightarrow> Some (Inl e)
             | Inr (x, s') \<Rightarrow> Some (Inr (JNumber x, s'))) st"

definition readAMF3VectorObject ::
  "(decoder \<Rightarrow> (jsval \<times> decoder) result) \<Rightarrow> decoder \<Rightarrow> (jsval \<times> decoder) result" where
  "readAMF3VectorObject dec st = readAMF3Vector dec st"

definition readAMF3Dictionary ::
  "(decoder \<Rightarrow> (jsval \<times> decoder) result) \<Rightarrow> host \<Rightarrow> decoder \<Rightarrow> (jsval \<times> decoder) result" where
  "readAMF3Dictionary dec hst st0 =
     (case readAMFHeader st0 of
        Inl e \<Rightarrow> Some (Inl e)
      | Inr (header, st) \<Rightarrow>
          if \<not> isDef header then
            (let ref = table_get (dec_amf3ObjectReferences st) (hvalue header) in
             if falsy_ref ref then Some (Inl InvalidReference)
             else (case ref of Some v \<Rightarrow> Some (Inr (v, st)) | None \<Rightarrow> Some (Inl InvalidReference)))
          else
            (case readUInt8 st of
               Inl e \<Rightarrow> Some (Inl e)
             | Inr (weakKeys, st1) \<Rightarrow>
                 (let (res, st2) = alloc (PlainObj []) st1;
                      st3 = push_object (JRef res) st2
                  in and_then
                       (for_count (nat (hvalue header))
                          (\<lambda>s. and_then (dec s) (\<lambda>(key, s1).
                                and_then (dec s1) (\<lambda>(v, s2).
                                  Some (Inr (assign_prop res
                                               (JSON_stringify hst (dec_heap s1) key) v s2)))))
                          st3)
                       (\<lambda>st4. Some (Inr (JRef res, st4))))))"

definition readByTypeId ::
  "(decoder \<Rightarrow> (jsval \<times> decoder) result) \<Rightarrow> nat \<Rightarrow> host \<Rightarrow> int option \<Rightarrow> decoder
     \<Rightarrow> (jsval \<times> decoder) result" where
  "readByTypeId dec fuel hst typeId st =
     (if typeId = Some 0x00 then Some (Inr (JUndefined, st))
      else if typeId = Some 0x01 then Some (Inr (JNull, st))
      else if typeId = Some 0x02 then Some (Inr (JBool False, st))
      else if typeId = Some 0x03 then Some (Inr (JBool True, st))
      else if typeId = Some 0x04 then
        (case readInt29 st of Inl e \<Rightarrow> Some (Inl e)
         | Inr (n, st') \<Rightarrow> Some (Inr (JNumber (Integral n), st')))
      else if typeId = Some 0x05 then
        (case readDoubleBE st of Inl e \<Rightarrow> Some (Inl e)
         | Inr (x, st') \<Rightarrow> Some (Inr (JNumber x, st')))
      else if typeId = Some 0x06 then
        (case readAMF3String st of Inl e \<Rightarrow> Some (Inl e)
         | Inr (s, st') \<Rightarrow> Some (Inr (JString s, st')))
      else if typeId = Some 0x08 then Some (readAMF3Date st)
      else if typeId = Some 0x09 then readAMF3Array dec fuel st
      else if typeId = Some 0x0A then readAMF3Object dec fuel hst st
      else if typeId = Some 0x0C then Some (readAMF3ByteArray st)
      else if typeId = Some 0x0D then readAMF3VectorInt st
      else if typeId = Some 0x0E then readAMF3VectorUInt st
      else if typeId = Some 0x0F then readAMF3VectorDouble st
      else if typeId = Some 0x10 then readAMF3VectorObject dec st
      else if typeId = Some 0x11 then readAMF3Dictionary dec hst st
      else Some (Inl UnsupportedType))"

text \<open>
  \<open>decode\<close>. The fuel bounds the nesting depth of the calls of \<open>decode\<close> and, at each
  level, the number of iterations of a key loop.
\<close>

primrec decode :: "nat \<Rightarrow> host \<Rightarrow> decoder \<Rightarrow> (jsval \<times> decoder) result" where
  "decode 0 hst st = None"
| "decode (Suc fuel) hst st =
     (case readUInt8 st of
        Inl e \<Rightarrow> Some (Inl e)
      | Inr (typeId, st') \<Rightarrow> readByTypeId (decode fuel hst) fuel hst typeId st')"

text \<open>A host with an empty registry, whose \<open>JSON.stringify\<close> is not consulted.\<close>

definition no_host :: host where
  "no_host = \<lparr>amf3Externalizables = (\<lambda>name. None), JSON_stringify = (\<lambda>h v. [])\<rparr>"

text \<open>
  A host that has registered, for the class \<open>X\<close>, the reader
  \<open>static read(decoder) { return decoder.decode(); }\<close>.
\<close>

definition decoding_host :: host where
  "decoding_host =
     \<lparr>amf3Externalizables = (\<lambda>name. if name = ''X'' then Some (\<lambda>dec st. dec st) else None),
      JSON_stringify = (\<lambda>h v. [])\<rparr>"

section \<open>Properties\<close>

subsection \<open>The U29 codec\<close>

text \<open>
  What the codec does keep: a value of the one-, two- or three-byte form is read back as
  written, and the number of bytes written follows the length table over the whole range
  that \<open>writeInt29\<close> accepts.
\<close>

lemma mask7_numeral: "(127::int) = mask 7"
  and mask8_numeral: "(255::int) = mask 8"
  and mask29_numeral: "(536870911::int) = mask 29"
  by (simp_all add: mask_eq_exp_minus_1)

lemma bit_128_iff: "bit (128::int) n \<longleftrightarrow> n = 7"
  using bit_exp_iff [of 7 n, where ?'a = int] by simp

lemma continuation_byte_uint:
  "uint (word_of_int (((x AND 127) OR 128) AND 255) :: byte) = (x AND 127) OR 128"
  unfolding mask7_numeral mask8_numeral
  by (rule bit_eqI) (auto simp add: uint_word_of_int_eq bit_simps bit_128_iff)

lemma final_byte_uint: "uint (word_of_int ((x AND 127) AND 255) :: byte) = x AND 127"
  unfolding mask7_numeral mask8_numeral
  by (rule bit_eqI) (auto simp add: uint_word_of_int_eq bit_simps)

lemma continuation_byte_payload: "((x AND 127) OR 128) AND 127 = x AND (127::int)"
  unfolding mask7_numeral
  by (rule bit_eqI) (auto simp add: bit_simps bit_128_iff)

lemma final_byte_lt_128: "(x AND 127) < (128::int)"
proof -
  have "x AND 127 = take_bit 7 x" by (simp add: mask7_numeral take_bit_eq_mask)
  moreover have "take_bit 7 x < (2::int) ^ 7" by (rule take_bit_int_less_exp)
  ultimately show ?thesis by simp
qed

lemma continuation_byte_ge_128: "(128::int) \<le> (x AND 127) OR 128"
proof -
  have "x AND 127 = take_bit 7 x" by (simp add: mask7_numeral take_bit_eq_mask)
  then have "(x AND 127) OR 128 = take_bit 7 x + 128"
    using disjunctive_add [of "take_bit 7 x" "128::int"]
    by (simp add: bit_simps bit_128_iff)
  moreover have "0 \<le> take_bit 7 x" by simp
  ultimately show ?thesis by simp
qed

lemma recompose_two_bytes:
  "push_bit 7 (drop_bit 7 v AND 127) OR (v AND 127) = take_bit 14 (v::int)"
  unfolding mask7_numeral
  by (rule bit_eqI) (auto simp add: bit_simps)

lemma recompose_three_bytes:
  "push_bit 7 (push_bit 7 (drop_bit 14 v AND 127) OR (drop_bit 7 v AND 127)) OR (v AND 127)
     = take_bit 21 (v::int)"
  unfolding mask7_numeral
  apply (rule bit_eqI)
  subgoal for n
    by (cases "n < 7"; cases "n < 14") (auto simp add: bit_simps)
  done

lemmas recompose_two_bytes_simp = recompose_two_bytes [simplified]
lemmas recompose_three_bytes_simp = recompose_three_bytes [simplified]

lemma take_bit_small_self: "0 \<le> n \<Longrightarrow> n < 2 ^ k \<Longrightarrow> take_bit k (n::int) = n"
  by (simp add: take_bit_int_eq_self)

lemma sign_extend29_small:
  assumes "0 \<le> n" and "n < 268435456"
  shows "sign_extend29 n = n"
proof -
  have "take_bit 28 n = n" using assms by (simp add: take_bit_int_eq_self)
  then have "\<not> bit n 28" by (metis bit_take_bit_iff less_irrefl)
  then have "n AND 2 ^ 28 = 0"
    by (simp only: and_exp_eq_0_iff_not_bit not_False_eq_True)
  then show ?thesis by (simp add: sign_extend29_def)
qed

lemma writeInt29_readInt29_small:
  assumes "0 \<le> n" and "n < 2097152"
  shows "\<exists>bs. writeInt29 n w = Inr (push_chunk bs w)
           \<and> length bs = spec_u29_length (n AND 0x1fffffff)
           \<and> readInt29 (new_Reader (bs @ rest))
               = Inr (n, \<lparr>data = bs @ rest, position = int (length bs)\<rparr>)"
proof -
  have v: "n AND 0x1fffffff = n"
    using assms
    by (simp add: mask29_numeral flip: take_bit_eq_mask) (simp add: take_bit_int_eq_self)
  have se: "sign_extend29 n = n" using assms by (simp add: sign_extend29_small)
  consider (one) "n < 128" | (two) "128 \<le> n" "n < 16384" | (three) "16384 \<le> n"
    by linarith
  then show ?thesis
  proof cases
    case one
    have b: "uint (word_of_int (n AND 255) :: byte) = n"
      using assms one by (simp add: mask8_numeral uint_word_of_int_eq flip: take_bit_eq_mask)
         (simp add: take_bit_int_eq_self)
    show ?thesis
      using assms one b
      by (intro exI [of _ "[word_of_int (n AND 255)]"])
        (simp add: writeInt29_def v spec_u29_length_def readInt29_def readUInt8_def
          checkAvailable_def byte_at_def lt128_def to_int32_def new_Reader_def push_chunk_def)
  next
    case two
    have t: "take_bit 14 n = n" using assms two by (simp add: take_bit_int_eq_self)
    show ?thesis
      using assms two
      by (intro exI [of _ "[word_of_int ((drop_bit 7 n AND 127 OR 128) AND 255),
                             word_of_int ((n AND 127) AND 255)]"])
        (simp add: writeInt29_def v spec_u29_length_def readInt29_def readUInt8_def
          checkAvailable_def byte_at_def lt128_def to_int32_def new_Reader_def push_chunk_def
          continuation_byte_uint final_byte_uint continuation_byte_payload
          final_byte_lt_128 continuation_byte_ge_128 recompose_two_bytes_simp t se Let_def
          not_less)
  next
    case three
    have t: "take_bit 21 n = n" using assms three by (simp add: take_bit_int_eq_self)
    show ?thesis
      using assms three
      by (intro exI [of _ "[word_of_int ((drop_bit 14 n AND 127 OR 128) AND 255),
                             word_of_int ((drop_bit 7 n AND 127 OR 128) AND 255),
                             word_of_int ((n AND 127) AND 255)]"])
        (simp add: writeInt29_def v spec_u29_length_def readInt29_def readUInt8_def
          checkAvailable_def byte_at_def lt128_def to_int32_def new_Reader_def push_chunk_def
          continuation_byte_uint final_byte_uint continuation_byte_payload
          final_byte_lt_128 continuation_byte_ge_128 recompose_three_bytes_simp t se Let_def
          not_less)
  qed
qed

lemma writeInt29_length:
  assumes "- 268435456 \<le> n" and "n \<le> 536870911"
  shows "\<exists>bs. writeInt29 n w = Inr (push_chunk bs w)
           \<and> length bs = spec_u29_length (n AND 0x1fffffff)"
proof -
  have "0 \<le> n AND 0x1fffffff" by simp
  then show ?thesis
    using assms by (auto simp add: writeInt29_def spec_u29_length_def Let_def)
qed

text \<open>
  C2 (U29 round trip). The claim: for every integer \<open>n\<close> in the signed 29-bit range,
  \<open>readInt29\<close> applied to the bytes written by \<open>writeInt29 n\<close> returns \<open>n\<close>, and the
  number of bytes written follows the length table. The four-byte branch of
  \<open>writeInt29\<close> shifts by 22, 14 and 7 where the four-byte form read by \<open>readInt29\<close>
  (7 + 7 + 7 + 8 payload bits) needs 22, 15 and 8. The shorter forms round-trip
  (\<open>writeInt29_readInt29_small\<close>) and the lengths are right (\<open>writeInt29_length\<close>).
  At \<open>n = 2097152\<close>, the smallest value of the four-byte form, the writer emits
  \<open>80 80 80 00\<close>, four bytes as the table says, and the reader returns 0 from them; at
  \<open>n = -256\<close> the writer emits \<open>FF FF FE 00\<close> and the reader returns \<open>-512\<close>.
\<close>

theorem writeInt29_readInt29_four_byte_mismatch:
  "writeInt29 2097152 new_Writer
     = Inr \<lparr>chunks = [[0x80, 0x80, 0x80, 0x00]], totalLength = 4\<rparr>
   \<and> getBuffer \<lparr>chunks = [[0x80, 0x80, 0x80, 0x00 :: byte]], totalLength = 4\<rparr>
     = [0x80, 0x80, 0x80, 0x00]
   \<and> spec_u29_length (2097152 AND 0x1fffffff) = 4
   \<and> readInt29 (new_Reader [0x80, 0x80, 0x80, 0x00])
     = Inr (0, \<lparr>data = [0x80, 0x80, 0x80, 0x00], position = 4\<rparr>)
   \<and> writeInt29 (- 256) new_Writer
     = Inr \<lparr>chunks = [[0xFF, 0xFF, 0xFE, 0x00]], totalLength = 4\<rparr>
   \<and> readInt29 (new_Reader [0xFF, 0xFF, 0xFE, 0x00])
     = Inr (- 512, \<lparr>data = [0xFF, 0xFF, 0xFE, 0x00], position = 4\<rparr>)"
  by (simp add: writeInt29_def new_Writer_def push_chunk_def getBuffer_def readInt29_def
      new_Reader_def readUInt8_def checkAvailable_def byte_at_def lt128_def to_int32_def
      sign_extend29_def spec_u29_length_def Let_def)

text \<open>
  C3 (range check of \<open>writeInt29\<close>), as stated: the call fails exactly outside
  \<open>[-2^28, 2^28 - 1]\<close>. The guard of the source is
  \<open>value > 536870911 || value < -268435456\<close>, so \<open>268435456 = 2^28\<close>, which lies above
  the claimed interval, is accepted and four bytes are appended.
\<close>

theorem writeInt29_accepts_two_to_the_28:
  "268435455 < (268435456 :: int)
   \<and> writeInt29 268435456 new_Writer
       = Inr \<lparr>chunks = [[0xC0, 0x80, 0x80, 0x00]], totalLength = 4\<rparr>"
  by (simp add: writeInt29_def new_Writer_def push_chunk_def Let_def)

text \<open>
  C3, amended: \<open>writeInt29\<close> fails with the range error exactly for the integers below
  \<open>-2^28\<close> or above \<open>2^29 - 1\<close>; every integer of \<open>[-2^28, 2^29 - 1]\<close> is accepted
  and one non-empty chunk is appended to the writer. A failing call returns no writer:
  the range check precedes every write.
\<close>

theorem writeInt29_range_check:
  "(writeInt29 n w = Inl OutOfRange \<longleftrightarrow> n < - 268435456 \<or> 536870911 < n)
   \<and> ((\<exists>bs. bs \<noteq> [] \<and> writeInt29 n w = Inr (push_chunk bs w))
        \<longleftrightarrow> - 268435456 \<le> n \<and> n \<le> 536870911)"
  by (auto simp add: writeInt29_def Let_def)

subsection \<open>Evaluation rules\<close>

lemma for_count_numeral:
  "for_count (numeral n) body s =
     (case body s of None \<Rightarrow> None | Some (Inl e) \<Rightarrow> Some (Inl e)
      | Some (Inr s') \<Rightarrow> for_count (pred_numeral n) body s')"
  by (simp add: numeral_eq_Suc)

lemma for_count_1:
  "for_count 1 body s =
     (case body s of None \<Rightarrow> None | Some (Inl e) \<Rightarrow> Some (Inl e)
      | Some (Inr s') \<Rightarrow> Some (Inr s'))"
  by (simp split: option.splits sum.splits)

lemmas writer_defs = writeInt29_def writeByte_def push_chunk_def getBuffer_def clear_def
  new_Writer_def Let_def

lemmas reader_defs = readInt29_def readUInt8_def checkAvailable_def byte_at_def lt128_def
  to_int32_def sign_extend29_def readAMFHeader_def new_Reader_def Let_def

lemmas encoder_defs = encodeValue_body_def writeByType_def writeArray_def
  writeObjectValue_def write_pairs_def writeInlineString_def writeByteArray_def
  and_then_def infer_def heap_get_def new_AMFEncoder_def utf8_encode_def get_prop_def
  is_internal_def truthy_def getSerializableKeys_def new_Serializable_def writeObject_def

lemmas decoder_defs = readByTypeId_def readAMF3Array_def readAMF3Object_def
  readAMF3ObjectTrait_def readAMF3String_def readAMF3Date_def readAMF3ByteArray_def
  readUTF8String_def readDoubleBE_def js_slice_def utf8_decode_def new_AMFDecoder_def
  table_get_def alloc_def push_object_def assign_prop_def array_push_def own_keys_def
  is_Date_def is_Uint8Array_def falsy_ref_def and_then_def heap_get_def truthy_def
  number_of_f64_def f64_from_bytes_def new_Serializable_def no_host_def
  for_count_numeral for_count_1 char_of_def bit_Suc_0_iff

subsection \<open>Type inference\<close>

lemma infer_Integral:
  "infer h (JNumber (Integral n))
     = Inr (if - 268435456 < n \<and> n < 536870911 then INTEGER else DOUBLE)"
  by (simp add: infer_def)

text \<open>
  C1 (inference of integral numbers). The claim: a finite integral number is an INTEGER
  exactly when it lies in \<open>[-2^28, 2^28 - 1]\<close>; \<open>-268435456\<close> is an INTEGER and
  \<open>268435456\<close> a DOUBLE. The test of \<open>AMF3.infer\<close> is
  \<open>value < 536870911 && value > -268435456\<close>: it sends \<open>-268435456\<close> to DOUBLE and
  \<open>268435456\<close> to INTEGER. The encoder then writes \<open>268435456\<close> as the U29
  \<open>C0 80 80 00\<close>, which the decoder sign-extends to \<open>-268435456\<close>.
\<close>

theorem infer_integer_boundaries:
  "infer [] (JNumber (Integral (- 268435456))) = Inr DOUBLE
   \<and> infer [] (JNumber (Integral 268435456)) = Inr INTEGER
   \<and> (case encodeValue (Suc 0) [] (JNumber (Integral 268435456)) new_AMFEncoder of
         Some (Inr st) \<Rightarrow> getBuffer st = [0x04, 0xC0, 0x80, 0x80, 0x00]
       | _ \<Rightarrow> False)
   \<and> (case decode (Suc 0) no_host (new_AMFDecoder [0x04, 0xC0, 0x80, 0x80, 0x00]) of
         Some (Inr (v, st)) \<Rightarrow> v = JNumber (Integral (- 268435456))
       | _ \<Rightarrow> False)"
  by (simp add: encoder_defs writer_defs decoder_defs reader_defs)

subsection \<open>The empty string\<close>

lemma readUInt8_cursor:
  "readUInt8 d = Inr (b, d') \<Longrightarrow> \<exists>p. d' = d\<lparr>position := p\<rparr>"
  by (auto simp add: readUInt8_def split: if_splits)

lemma readInt29_cursor:
  assumes "readInt29 d = Inr (n, d')"
  shows "\<exists>p. d' = d\<lparr>position := p\<rparr>"
proof (cases "readUInt8 d")
  case (Inl e)
  with assms show ?thesis by (simp add: readInt29_def)
next
  case (Inr r1)
  obtain b1 d1 where r1: "r1 = (b1, d1)" by (cases r1)
  from Inr r1 obtain p1 where d1: "d1 = d\<lparr>position := p1\<rparr>"
    using readUInt8_cursor by blast
  show ?thesis
  proof (cases "lt128 b1")
    case True
    with assms Inr r1 d1 show ?thesis by (auto simp add: readInt29_def)
  next
    case nb1: False
    show ?thesis
    proof (cases "readUInt8 d1")
      case (Inl e)
      with assms \<open>readUInt8 d = Inr r1\<close> r1 nb1 show ?thesis
        by (simp add: readInt29_def Let_def)
    next
      case r2: (Inr r2)
      obtain b2 d2 where r2': "r2 = (b2, d2)" by (cases r2)
      from r2 r2' obtain p2 where d2: "d2 = d1\<lparr>position := p2\<rparr>"
        using readUInt8_cursor by blast
      show ?thesis
      proof (cases "lt128 b2")
        case True
        with assms \<open>readUInt8 d = Inr r1\<close> r1 nb1 r2 r2' d1 d2 show ?thesis
          by (auto simp add: readInt29_def Let_def)
      next
        case nb2: False
        show ?thesis
        proof (cases "readUInt8 d2")
          case (Inl e)
          with assms \<open>readUInt8 d = Inr r1\<close> r1 nb1 r2 r2' nb2 show ?thesis
            by (simp add: readInt29_def Let_def)
        next
          case r3: (Inr r3)
          obtain b3 d3 where r3': "r3 = (b3, d3)" by (cases r3)
          from r3 r3' obtain p3 where d3: "d3 = d2\<lparr>position := p3\<rparr>"
            using readUInt8_cursor by blast
          show ?thesis
          proof (cases "lt128 b3")
            case True
            with assms \<open>readUInt8 d = Inr r1\<close> r1 nb1 r2 r2' nb2 r3 r3' d1 d2 d3 show ?thesis
              by (auto simp add: readInt29_def Let_def)
          next
            case nb3: False
            show ?thesis
            proof (cases "readUInt8 d3")
              case (Inl e)
              with assms \<open>readUInt8 d = Inr r1\<close> r1 nb1 r2 r2' nb2 r3 r3' nb3 show ?thesis
                by (simp add: readInt29_def Let_def)
            next
              case r4: (Inr r4)
              obtain b4 d4 where r4': "r4 = (b4, d4)" by (cases r4)
              from r4 r4' obtain p4 where d4: "d4 = d3\<lparr>position := p4\<rparr>"
                using readUInt8_cursor by blast
              from assms \<open>readUInt8 d = Inr r1\<close> r1 nb1 r2 r2' nb2 r3 r3' nb3 r4 r4'
              have "d' = d4" by (simp add: readInt29_def Let_def)
              with d1 d2 d3 d4 show ?thesis by auto
            qed
          qed
        qed
      qed
    qed
  qed
qed

lemma readAMFHeader_cursor:
  "readAMFHeader d = Inr (hdr, d') \<Longrightarrow> \<exists>p. d' = d\<lparr>position := p\<rparr>"
  by (auto simp add: readAMFHeader_def split: sum.splits dest: readInt29_cursor)

lemma cursor_only: "d' = d\<lparr>position := p\<rparr> \<Longrightarrow> d' = d\<lparr>position := position d'\<rparr>"
  by simp

text \<open>
  C4 (the empty string and the string reference table). Encoding the empty string as a
  value, from any encoder state and heap, appends the two bytes \<open>06 01\<close> and leaves both
  reference tables as they were. Decoding a string whose header is an inline definition
  of length 0 returns the empty string in the state that reading the header left, which
  differs from the initial state in the cursor only: the string reference table, whatever
  it holds, is neither read nor extended.
\<close>

theorem empty_string_outside_reference_table:
  "encodeValue (Suc k) h (JString []) st
     = Some (Inr (st\<lparr>chunks := chunks st @ [[0x06], [0x01], []],
                       totalLength := totalLength st + 2\<rparr>))
   \<and> getBuffer (st\<lparr>chunks := chunks st @ [[0x06], [0x01], []],
                     totalLength := totalLength st + 2\<rparr>) = getBuffer st @ [0x06, 0x01]
   \<and> amf3StringReferences (st\<lparr>chunks := chunks st @ [[0x06], [0x01], []],
                                totalLength := totalLength st + 2\<rparr>) = amf3StringReferences st
   \<and> (readAMFHeader d = Inr (\<lparr>isDef = True, hvalue = 0\<rparr>, d')
        \<longrightarrow> readAMF3String d = Inr ([], d') \<and> d' = d\<lparr>position := position d'\<rparr>)"
proof -
  have enc: "encodeValue (Suc k) h (JString []) st
     = Some (Inr (st\<lparr>chunks := chunks st @ [[0x06], [0x01], []],
                       totalLength := totalLength st + 2\<rparr>))"
    by (simp add: encoder_defs writer_defs)
  have dec: "readAMF3String d = Inr ([], d') \<and> d' = d\<lparr>position := position d'\<rparr>"
    if hd: "readAMFHeader d = Inr (\<lparr>isDef = True, hvalue = 0\<rparr>, d')"
  proof -
    from hd have "readAMF3String d = Inr ([], d')" by (simp add: readAMF3String_def)
    moreover from hd obtain p where "d' = d\<lparr>position := p\<rparr>"
      using readAMFHeader_cursor by blast
    then have "d' = d\<lparr>position := position d'\<rparr>" by (rule cursor_only)
    ultimately show ?thesis by simp
  qed
  from enc dec show ?thesis by (simp add: getBuffer_def)
qed

theorem empty_string_outside_reference_table_witness:
  "readAMFHeader (new_AMFDecoder [0x01])
     = Inr (\<lparr>isDef = True, hvalue = 0\<rparr>, (new_AMFDecoder [0x01])\<lparr>position := 1\<rparr>)
   \<and> readAMF3String (new_AMFDecoder [0x01])
     = Inr ([], (new_AMFDecoder [0x01])\<lparr>position := 1\<rparr>)
   \<and> encodeValue (Suc 0) [] (JString []) new_AMFEncoder
     = Some (Inr \<lparr>chunks = [[0x06], [0x01], []], totalLength = 2,
                   amf3ObjectReferences = [], amf3StringReferences = []\<rparr>)"
proof -
  have hd: "readAMFHeader (new_AMFDecoder [0x01])
     = Inr (\<lparr>isDef = True, hvalue = 0\<rparr>, (new_AMFDecoder [0x01])\<lparr>position := 1\<rparr>)"
    by (simp add: reader_defs new_AMFDecoder_def)
  show ?thesis
    using hd empty_string_outside_reference_table
      [of 0 "[]" new_AMFEncoder "new_AMFDecoder [0x01]" "(new_AMFDecoder [0x01])\<lparr>position := 1\<rparr>"]
    by (simp add: new_AMFEncoder_def)
qed

subsection \<open>String references on encode\<close>

text \<open>
  C5 (string sharing in a dense array). A fresh encoder, given the array
  \<open>["ab", "ab"]\<close>, produces \<open>09 05 01 06 05 61 62 06 00\<close>: the body of \<open>"ab"\<close> is
  written once and registered, and the second occurrence is the type byte \<open>06\<close> followed
  by the one-byte reference \<open>00\<close>. Any fuel of at least 2 gives this result.
\<close>

theorem encode_array_shares_string:
  "(case encodeValue (Suc (Suc k)) [ArrayObj [JString ''ab'', JString ''ab'']] (JRef 0)
          new_AMFEncoder of
      Some (Inr st) \<Rightarrow>
        getBuffer st = [0x09, 0x05, 0x01, 0x06, 0x05, 0x61, 0x62, 0x06, 0x00]
        \<and> amf3StringReferences st = [''ab'']
        \<and> amf3ObjectReferences st = [JRef 0]
    | _ \<Rightarrow> False)"
  by (simp add: encoder_defs writer_defs)

theorem encode_array_shares_string_witness:
  "(case encodeValue (Suc (Suc 0)) [ArrayObj [JString ''ab'', JString ''ab'']] (JRef 0)
          new_AMFEncoder of
      Some (Inr st) \<Rightarrow>
        getBuffer st = [0x09, 0x05, 0x01, 0x06, 0x05, 0x61, 0x62, 0x06, 0x00]
    | _ \<Rightarrow> False)"
  using encode_array_shares_string [of 0]
  by (simp split: option.splits sum.splits)

subsection \<open>Clearing an encoder\<close>

lemma clear_keeps_tables:
  "amf3StringReferences (clear st) = amf3StringReferences st
   \<and> amf3ObjectReferences (clear st) = amf3ObjectReferences st"
  by (simp add: clear_def)

text \<open>
  C7 (\<open>clear\<close> and the reference tables). The claim: after \<open>clear()\<close> an encoder is in
  the state of a fresh one, so that it encodes a value to the same bytes. \<open>AMFEncoder\<close>
  inherits \<open>clear\<close> from \<open>Writer\<close>, which empties the chunks and the length only.
  After \<open>"ab"\<close> has been encoded and the encoder cleared, the buffer is empty but the
  string table still holds \<open>"ab"\<close>, and encoding \<open>"ab"\<close> again yields the reference
  \<open>06 00\<close> where a fresh encoder yields \<open>06 05 61 62\<close>.
\<close>

theorem clear_keeps_reference_tables:
  "(case encodeValue (Suc 0) [] (JString ''ab'') new_AMFEncoder of
      Some (Inr st1) \<Rightarrow>
        getBuffer st1 = [0x06, 0x05, 0x61, 0x62]
        \<and> getBuffer (clear st1) = []
        \<and> amf3StringReferences (clear st1) = [''ab'']
        \<and> clear st1 \<noteq> new_AMFEncoder
        \<and> (case encodeValue (Suc 0) [] (JString ''ab'') (clear st1) of
              Some (Inr st2) \<Rightarrow> getBuffer st2 = [0x06, 0x00]
            | _ \<Rightarrow> False)
    | _ \<Rightarrow> False)"
  by (simp add: encoder_defs writer_defs)

subsection \<open>Anonymous objects\<close>

text \<open>
  C8 (an anonymous object whose dynamic flag is false). The claim: such an object is
  written with the trait header \<open>03\<close>, the empty class name and an empty body. The
  anonymous branch of \<open>writeObjectValue\<close> never reads \<open>__dynamic\<close>: the object
  \<open>new Serializable('', false)\<close> is written as \<open>0A 0B 01 01\<close> (dynamic trait header
  \<open>0B\<close>, empty class name, terminator of the dynamic part), exactly as
  \<open>new Serializable('', true)\<close> is.
\<close>

theorem anonymous_object_ignores_dynamic_flag:
  "(case encodeValue (Suc 0) [new_Serializable (Some []) (Some False)] (JRef 0)
          new_AMFEncoder of
      Some (Inr st) \<Rightarrow> getBuffer st = [0x0A, 0x0B, 0x01, 0x01]
    | _ \<Rightarrow> False)
   \<and> (case encodeValue (Suc 0) [new_Serializable (Some []) (Some True)] (JRef 0)
          new_AMFEncoder of
      Some (Inr st) \<Rightarrow> getBuffer st = [0x0A, 0x0B, 0x01, 0x01]
    | _ \<Rightarrow> False)"
  by (simp add: encoder_defs writer_defs)

subsection \<open>The object reference table on decode\<close>

text \<open>
  C6 (the slot is appended before the body is parsed). The claim covers every complex
  type, the externalizable and \<open>ArrayCollection\<close> paths included. On the
  \<open>ArrayCollection\<close> path \<open>readAMF3Object\<close> decodes the nested value first and
  pushes the result afterwards. The input is an externalizable object of class
  \<open>flex.messaging.io.ArrayCollection\<close> whose body is a one-element array. With the
  element \<open>09 02\<close> (a reference to slot 1, the array itself when the collection owns
  slot 0) decoding fails: while the body is parsed the table holds the array alone, in
  slot 0. With the element \<open>01\<close> (null) decoding succeeds and the table ends as two
  slots that both hold the array: the second was appended after the body. On the path of
  a registered externalizable the same holds: with the reader of \<open>decoding_host\<close>, an
  object of class \<open>X\<close> whose body is the reference \<open>0A 00\<close> to the object itself
  fails, the table being empty while the body is read.
\<close>

theorem array_collection_slot_appended_after_body:
  "decode (Suc (Suc (Suc 0))) no_host
     (new_AMFDecoder ([0x0A, 0x07, 0x43] @ utf8_encode ''flex.messaging.io.ArrayCollection''
                       @ [0x09, 0x03, 0x01, 0x09, 0x02]))
     = Some (Inl InvalidReference)
   \<and> (case decode (Suc (Suc (Suc 0))) no_host
          (new_AMFDecoder ([0x0A, 0x07, 0x43] @ utf8_encode ''flex.messaging.io.ArrayCollection''
                            @ [0x09, 0x03, 0x01, 0x01])) of
         Some (Inr (v, st)) \<Rightarrow>
           v = JRef 1
           \<and> dec_amf3ObjectReferences st = [JRef 1, JRef 1]
           \<and> dec_heap st = [PlainObj [], ArrayObj [JNull]]
       | _ \<Rightarrow> False)
   \<and> decode (Suc (Suc 0)) decoding_host (new_AMFDecoder [0x0A, 0x07, 0x03, 0x58, 0x0A, 0x00])
     = Some (Inl InvalidReference)"
  by (simp add: decoder_defs reader_defs utf8_encode_def decoding_host_def)

text \<open>
  C9 (a reference to a slot of another type). The claim: such a reference fails with
  \<open>InvalidReference\<close> for every referencable type. The array, object, vector and
  dictionary paths only test \<open>!ref\<close>. The input is the array \<open>[date, r]\<close> where \<open>r\<close>
  is a reference to slot 1, the slot of the date. Read as an array reference (\<open>09 02\<close>)
  or as an object reference (\<open>0A 02\<close>), \<open>r\<close> decodes to the date; read as a byte-array
  reference (\<open>0C 02\<close>), whose path tests the type of the slot, it fails.
\<close>

theorem array_reference_returns_date_slot:
  "(case decode (Suc (Suc 0)) no_host
          (new_AMFDecoder [0x09, 0x05, 0x01, 0x08, 0x01, 0, 0, 0, 0, 0, 0, 0, 0, 0x09, 0x02]) of
      Some (Inr (v, st)) \<Rightarrow>
        v = JRef 1
        \<and> dec_heap st = [PlainObj [], ArrayObj [JRef 2, JRef 2], DateObj (Integral 0)]
        \<and> dec_amf3ObjectReferences st = [JRef 1, JRef 2]
    | _ \<Rightarrow> False)
   \<and> (case decode (Suc (Suc 0)) no_host
          (new_AMFDecoder [0x09, 0x05, 0x01, 0x08, 0x01, 0, 0, 0, 0, 0, 0, 0, 0, 0x0A, 0x02]) of
      Some (Inr (v, st)) \<Rightarrow>
        dec_heap st = [PlainObj [], ArrayObj [JRef 2, JRef 2], DateObj (Integral 0)]
    | _ \<Rightarrow> False)
   \<and> decode (Suc (Suc 0)) no_host
        (new_AMFDecoder [0x09, 0x05, 0x01, 0x08, 0x01, 0, 0, 0, 0, 0, 0, 0, 0, 0x0C, 0x02])
      = Some (Inl InvalidReference)"
  by (simp add: decoder_defs reader_defs)

subsection \<open>String references: encoder against decoder\<close>

text \<open>
  C10 (the two string tables disagree). \<open>writeInlineString\<close>, which writes keys, class
  names and field names, leaves the encoder's tables alone, whereas \<open>readAMF3String\<close>,
  which reads them (\<open>read_pairs\<close>, \<open>readAMF3ObjectTrait\<close> and \<open>read_strings\<close> call
  nothing else for a string), appends every inline string of non-zero length to the
  decoder's table. For the associative array \<open>{k: "v", j: "v"}\<close> the encoder registers
  \<open>"v"\<close> in slot 0 and writes the second value as a reference to slot 0; the decoder's
  table is \<open>["k", "v", "j"]\<close>, and the decoded array is \<open>{k: "v", j: "k"}\<close>.
\<close>

theorem string_tables_disagree:
  "(case writeInlineString s (st :: encoder) of
      Inl e \<Rightarrow> True
    | Inr st' \<Rightarrow> amf3StringReferences st' = amf3StringReferences st
                \<and> amf3ObjectReferences st' = amf3ObjectReferences st)
   \<and> (readAMFHeader d = Inr (\<lparr>isDef = True, hvalue = n\<rparr>, d1) \<and> n \<noteq> 0
        \<and> readUTF8String n d1 = Inr (key, d2)
      \<longrightarrow> readAMF3String d
            = Inr (key, d2\<lparr>dec_amf3StringReferences := dec_amf3StringReferences d2 @ [key]\<rparr>))
   \<and> (case encodeValue (Suc (Suc k))
            [PlainObj [(''k'', JString ''v''), (''j'', JString ''v'')]] (JRef 0)
            new_AMFEncoder of
        Some (Inr est) \<Rightarrow>
          getBuffer est
            = [0x09, 0x01, 0x03, 0x6B, 0x06, 0x03, 0x76, 0x03, 0x6A, 0x06, 0x00, 0x01]
          \<and> amf3StringReferences est = [''v'']
      | _ \<Rightarrow> False)
   \<and> (case decode (Suc (Suc (Suc (Suc k')))) no_host
            (new_AMFDecoder
               [0x09, 0x01, 0x03, 0x6B, 0x06, 0x03, 0x76, 0x03, 0x6A, 0x06, 0x00, 0x01]) of
        Some (Inr (v, dst)) \<Rightarrow>
          v = JRef 0
          \<and> dec_amf3StringReferences dst = [''k'', ''v'', ''j'']
          \<and> dec_heap dst = [PlainObj [(''k'', JString ''v''), (''j'', JString ''k'')]]
          \<and> dec_heap dst \<noteq> [PlainObj [(''k'', JString ''v''), (''j'', JString ''v'')]]
      | _ \<Rightarrow> False)"
proof -
  have a: "(case writeInlineString s st of
      Inl e \<Rightarrow> True
    | Inr st' \<Rightarrow> amf3StringReferences st' = amf3StringReferences st
                \<and> amf3ObjectReferences st' = amf3ObjectReferences st)"
    by (simp add: writeInlineString_def writeInt29_def push_chunk_def Let_def
        split: sum.splits)
  have b: "readAMFHeader d = Inr (\<lparr>isDef = True, hvalue = n\<rparr>, d1) \<and> n \<noteq> 0
        \<and> readUTF8String n d1 = Inr (key, d2)
      \<longrightarrow> readAMF3String d
            = Inr (key, d2\<lparr>dec_amf3StringReferences := dec_amf3StringReferences d2 @ [key]\<rparr>)"
    by (simp add: readAMF3String_def)
  have c: "(case encodeValue (Suc (Suc k))
            [PlainObj [(''k'', JString ''v''), (''j'', JString ''v'')]] (JRef 0)
            new_AMFEncoder of
        Some (Inr est) \<Rightarrow>
          getBuffer est
            = [0x09, 0x01, 0x03, 0x6B, 0x06, 0x03, 0x76, 0x03, 0x6A, 0x06, 0x00, 0x01]
          \<and> amf3StringReferences est = [''v'']
      | _ \<Rightarrow> False)"
    by (simp add: encoder_defs writer_defs)
  have d: "(case decode (Suc (Suc (Suc (Suc k')))) no_host
            (new_AMFDecoder
               [0x09, 0x01, 0x03, 0x6B, 0x06, 0x03, 0x76, 0x03, 0x6A, 0x06, 0x00, 0x01]) of
        Some (Inr (v, dst)) \<Rightarrow>
          v = JRef 0
          \<and> dec_amf3StringReferences dst = [''k'', ''v'', ''j'']
          \<and> dec_heap dst = [PlainObj [(''k'', JString ''v''), (''j'', JString ''k'')]]
          \<and> dec_heap dst \<noteq> [PlainObj [(''k'', JString ''v''), (''j'', JString ''v'')]]
      | _ \<Rightarrow> False)"
    by (simp add: decoder_defs reader_defs)
  from a b c d show ?thesis by blast
qed

theorem string_tables_disagree_witness:
  "readAMFHeader (new_AMFDecoder [0x03, 0x6B])
     = Inr (\<lparr>isDef = True, hvalue = 1\<rparr>, (new_AMFDecoder [0x03, 0x6B])\<lparr>position := 1\<rparr>)
   \<and> readUTF8String 1 ((new_AMFDecoder [0x03, 0x6B])\<lparr>position := 1\<rparr>)
     = Inr (''k'', (new_AMFDecoder [0x03, 0x6B])\<lparr>position := 2\<rparr>)
   \<and> readAMF3String (new_AMFDecoder [0x03, 0x6B])
     = Inr (''k'', (new_AMFDecoder [0x03, 0x6B])
                     \<lparr>position := 2, dec_amf3StringReferences := [''k'']\<rparr>)"
proof -
  have h1: "readAMFHeader (new_AMFDecoder [0x03, 0x6B])
     = Inr (\<lparr>isDef = True, hvalue = 1\<rparr>, (new_AMFDecoder [0x03, 0x6B])\<lparr>position := 1\<rparr>)"
    by (simp add: reader_defs new_AMFDecoder_def)
  have h2: "readUTF8String 1 ((new_AMFDecoder [0x03, 0x6B])\<lparr>position := 1\<rparr>)
     = Inr (''k'', (new_AMFDecoder [0x03, 0x6B])\<lparr>position := 2\<rparr>)"
    by (simp add: readUTF8String_def checkAvailable_def js_slice_def utf8_decode_def
        new_AMFDecoder_def char_of_def bit_Suc_0_iff)
  show ?thesis
    using h1 h2 string_tables_disagree
      [where s = "[]" and st = new_AMFEncoder and d = "new_AMFDecoder [0x03, 0x6B]"
         and n = 1 and ?d1.0 = "(new_AMFDecoder [0x03, 0x6B])\<lparr>position := 1\<rparr>"
         and key = "''k''" and ?d2.0 = "(new_AMFDecoder [0x03, 0x6B])\<lparr>position := 2\<rparr>"
         and k = 0 and k' = 0]
    by (simp add: new_AMFDecoder_def)
qed

end
